theory Spec2Isabelle
  imports Main
begin

section \<open>lvlog: a levelled wrapper around the standard logger\<close>

text \<open>
  The package \<open>lvlog\<close> (file \<open>lvlog/log.go\<close>) keeps a current level and a log file in
  package variables, and forwards a message to the standard logger of Go's \<open>log\<close>
  package when the level of the message is at least the current level.
\<close>

subsection \<open>Levels and their prefixes\<close>

text \<open>The \<open>iota\<close> constants of the source; a level is a Go \<open>int\<close> and is only compared.\<close>

definition LevelDebug :: int where "LevelDebug = 0"
definition LevelInfo :: int where "LevelInfo = 1"
definition LevelWarning :: int where "LevelWarning = 2"
definition LevelError :: int where "LevelError = 3"

text \<open>The array \<open>levelPrefix\<close>, indexed by level.\<close>

definition levelPrefix :: "string list" where
  "levelPrefix = [''[DEBUG] '', ''[INFO] '', ''[WARNING] '', ''[ERROR] '']"

text \<open>Indexing a Go array: an index out of range is a run-time panic, here \<open>None\<close>.\<close>

definition index :: "'a list \<Rightarrow> int \<Rightarrow> 'a option" where
  "index xs i = (if 0 \<le> i \<and> i < int (length xs) then Some (xs ! nat i) else None)"

subsection \<open>Files, errors and the package state\<close>

text \<open>
  A value of type \<open>*os.File\<close>: the process's standard error, a file opened under a
  name, or the nil pointer that \<open>os.OpenFile\<close> returns together with its error.
\<close>

datatype os_File = Stderr | File string | NilFile

text \<open>
  The two errors of the package: the one made by \<open>errors.New\<close> with its text, and
  the error of a failed \<open>os.OpenFile\<close> with the path it was called on.
\<close>

datatype error = ErrorString string | PathError string

text \<open>The flags of the standard logger that select the parts of a line's header.\<close>

datatype flag = Ldate | Ltime | Lmicroseconds | Llongfile | Lshortfile | LUTC | Lmsgprefix

definition LstdFlags :: "flag set" where
  "LstdFlags = {Ldate, Ltime}"

text \<open>
  The package variables \<open>level\<close>, \<open>logFile\<close>, \<open>levelString\<close> and \<open>filename\<close>, the
  output and flags of the standard logger of package \<open>log\<close>, which \<open>setFileName\<close>
  sets, and the \<open>Write\<close> calls issued so far, oldest first, each with the file it was
  issued on and the bytes passed.
\<close>

record lvstate =
  level :: int
  logFile :: os_File
  levelString :: string
  filename :: string
  std_out :: os_File
  std_flags :: "flag set"
  writes :: "(os_File \<times> string) list"

text \<open>
  The state at process start: the initialisers of the package variables, the defaults
  that \<open>init\<close> registers for the two command-line flags, and the standard logger as
  package \<open>log\<close> creates it (standard error, \<open>LstdFlags\<close>).
\<close>

definition initial_state :: lvstate where
  "initial_state =
     \<lparr>level = LevelInfo, logFile = Stderr, levelString = ''INFO'', filename = '''',
      std_out = Stderr, std_flags = LstdFlags, writes = []\<rparr>"

text \<open>
  How a call ends: it returns a value, the process exits with a status (\<open>os.Exit\<close>),
  or the call panics. Each carries the state reached.
\<close>

datatype 'a outcome = Returns 'a lvstate | Exits int lvstate | Panics lvstate

fun final :: "'a outcome \<Rightarrow> lvstate" where
  "final (Returns _ s) = s"
| "final (Exits _ s) = s"
| "final (Panics s) = s"

subsection \<open>What the package takes from outside\<close>

text \<open>
  Arguments of type \<open>interface{}\<close>: strings, integers and booleans.
\<close>

datatype val = VString string | VInt int | VBool bool

text \<open>
  The surroundings of one call: the paths that \<open>os.OpenFile\<close> can open for reading
  and writing without creating them, the expansion of a format from its first verb on
  (the verbs of package \<open>fmt\<close> are not modelled), and the date and time that the
  standard logger reads from the clock.
\<close>

record env =
  openable :: "string list"
  expand :: "string \<Rightarrow> val list \<Rightarrow> string"
  now_date :: string
  now_time :: string

text \<open>\<open>os.OpenFile(name, os.O_RDWR, 0666)\<close>: no \<open>O_CREATE\<close>, so the file must exist.\<close>

definition OpenFile :: "env \<Rightarrow> string \<Rightarrow> os_File \<times> error option" where
  "OpenFile e name =
     (if name \<in> set (openable e) then (File name, None) else (NilFile, Some (PathError name)))"

text \<open>Decimal digits of a natural number, and the \<open>%v\<close> form of a value.\<close>

definition digit :: "nat \<Rightarrow> char" where
  "digit d = ''0123456789'' ! d"

fun digits :: "nat \<Rightarrow> string" where
  "digits n = (if n < 10 then [digit n] else digits (n div 10) @ [digit (n mod 10)])"

declare digits.simps [simp del]

fun printArg :: "val \<Rightarrow> string" where
  "printArg (VString s) = s"
| "printArg (VInt i) = (if i < 0 then CHR ''-'' # digits (nat (- i)) else digits (nat i))"
| "printArg (VBool b) = (if b then ''true'' else ''false'')"

fun isString :: "val \<Rightarrow> bool" where
  "isString (VString _) = True"
| "isString _ = False"

text \<open>
  \<open>fmt.Sprint\<close>: the operands in their \<open>%v\<close> form, with a space between two operands
  when neither is a string. The first argument of \<open>doPrint\<close> says whether an operand
  came before, the second whether it was a string.
\<close>

fun doPrint :: "bool \<Rightarrow> bool \<Rightarrow> val list \<Rightarrow> string" where
  "doPrint _ _ [] = []"
| "doPrint later prevString (a # as) =
     (if later \<and> \<not> isString a \<and> \<not> prevString then '' '' else []) @ printArg a
       @ doPrint True (isString a) as"

definition Sprint :: "val list \<Rightarrow> string" where
  "Sprint a = doPrint False False a"

text \<open>
  \<open>fmt.Sprintf\<close>: the text of the format before its first \<open>%\<close> is copied as it is;
  the rest is expanded with the arguments.
\<close>

definition Sprintf :: "env \<Rightarrow> string \<Rightarrow> val list \<Rightarrow> string" where
  "Sprintf e format a =
     takeWhile (\<lambda>c. c \<noteq> CHR ''%'') format @ expand e (dropWhile (\<lambda>c. c \<noteq> CHR ''%'') format) a"

subsection \<open>The standard logger\<close>

text \<open>
  The header of a line: date and time when their flags are set, and with
  \<open>Lshortfile\<close> or \<open>Llongfile\<close> the file and line of the call of \<open>Print\<close> or
  \<open>Printf\<close>.
\<close>

definition formatHeader :: "flag set \<Rightarrow> env \<Rightarrow> string \<Rightarrow> nat \<Rightarrow> string" where
  "formatHeader fl e src ln =
     (if Ldate \<in> fl then now_date e @ '' '' else [])
     @ (if Ltime \<in> fl \<or> Lmicroseconds \<in> fl then now_time e @ '' '' else [])
     @ (if Lshortfile \<in> fl \<or> Llongfile \<in> fl then src @ '':'' @ digits ln @ '': '' else [])"

text \<open>
  \<open>Logger.Output\<close>: header, message, and a newline unless the message ends in one,
  passed in one \<open>Write\<close> to the logger's output. The error of the \<open>Write\<close> is returned
  by \<open>Output\<close> and dropped by \<open>Print\<close> and \<open>Printf\<close>.
\<close>

definition log_line :: "flag set \<Rightarrow> env \<Rightarrow> string \<Rightarrow> nat \<Rightarrow> string \<Rightarrow> string" where
  "log_line fl e src ln msg =
     formatHeader fl e src ln @ msg
       @ (if msg = [] \<or> last msg \<noteq> CHR 0x0A then [CHR 0x0A] else [])"

definition golog_Output :: "env \<Rightarrow> string \<Rightarrow> nat \<Rightarrow> string \<Rightarrow> lvstate \<Rightarrow> lvstate" where
  "golog_Output e src ln msg s =
     s\<lparr>writes := writes s @ [(std_out s, log_line (std_flags s) e src ln msg)]\<rparr>"

definition golog_Printf :: "env \<Rightarrow> string \<Rightarrow> nat \<Rightarrow> string \<Rightarrow> val list \<Rightarrow> lvstate \<Rightarrow> lvstate" where
  "golog_Printf e src ln format v s = golog_Output e src ln (Sprintf e format v) s"

definition golog_Print :: "env \<Rightarrow> string \<Rightarrow> nat \<Rightarrow> val list \<Rightarrow> lvstate \<Rightarrow> lvstate" where
  "golog_Print e src ln v s = golog_Output e src ln (Sprint v) s"

definition golog_SetOutput :: "os_File \<Rightarrow> lvstate \<Rightarrow> lvstate" where
  "golog_SetOutput f s = s\<lparr>std_out := f\<rparr>"

definition golog_SetFlags :: "flag set \<Rightarrow> lvstate \<Rightarrow> lvstate" where
  "golog_SetFlags fl s = s\<lparr>std_flags := fl\<rparr>"

subsection \<open>The functions of the package\<close>

text \<open>
  \<open>setFileName\<close>: a non-empty name is opened and both results of \<open>os.OpenFile\<close>
  are assigned (the file, nil on failure, to \<open>logFile\<close>); then, in every case, the
  standard logger gets \<open>logFile\<close> as output and its flags; the error is returned.
\<close>

definition setFileName :: "env \<Rightarrow> string \<Rightarrow> lvstate \<Rightarrow> lvstate \<times> error option" where
  "setFileName e name s =
     (let (s1, err) =
            (if length name > 0
             then (let (f, er) = OpenFile e name in (s\<lparr>logFile := f\<rparr>, er))
             else (s, None));
          s2 = golog_SetOutput (logFile s1) s1;
          s3 = golog_SetFlags (LstdFlags \<union> {Lshortfile}) s2
      in (s3, err))"

text \<open>
  \<open>fmt.Fprintln(os.Stderr, msg)\<close> with one string operand: the string and a newline,
  written to standard error itself, whatever the logger's output is.
\<close>

definition Fprintln_Stderr :: "string \<Rightarrow> lvstate \<Rightarrow> lvstate" where
  "Fprintln_Stderr msg s = s\<lparr>writes := writes s @ [(Stderr, msg @ [CHR 0x0A])]\<rparr>"

text \<open>
  \<open>InitFromArgs\<close>: the \<open>switch\<close> on \<open>levelString\<close>; its default branch prints and
  exits, so \<open>setFileName\<close> is reached from the four named cases only, and its error
  is not looked at.
\<close>

definition InitFromArgs :: "env \<Rightarrow> lvstate \<Rightarrow> unit outcome" where
  "InitFromArgs e s =
     (if levelString s = ''DEBUG'' then Returns () (fst (setFileName e (filename s) (s\<lparr>level := LevelDebug\<rparr>)))
      else if levelString s = ''INFO'' then Returns () (fst (setFileName e (filename s) (s\<lparr>level := LevelInfo\<rparr>)))
      else if levelString s = ''WARNING'' then Returns () (fst (setFileName e (filename s) (s\<lparr>level := LevelWarning\<rparr>)))
      else if levelString s = ''ERROR'' then Returns () (fst (setFileName e (filename s) (s\<lparr>level := LevelError\<rparr>)))
      else Exits 1 (Fprintln_Stderr ''log-level can only be DEBUG, INFO, WARNING, ERROR'' s))"

text \<open>\<open>InitLevelAndFile\<close>: the level is checked first; the value returned is the error.\<close>

definition InitLevelAndFile :: "env \<Rightarrow> int \<Rightarrow> string \<Rightarrow> lvstate \<Rightarrow> lvstate \<times> error option" where
  "InitLevelAndFile e l p s =
     (if l \<le> LevelError \<and> l \<ge> LevelDebug
      then setFileName e p (s\<lparr>level := l\<rparr>)
      else (s, Some (ErrorString ''wrong level number'')))"

text \<open>
  \<open>outputf\<close> and \<open>output\<close> (here \<open>output'\<close>). The calls of the standard logger stand on lines 87 and 93
  of \<open>log.go\<close>, which is what \<open>Lshortfile\<close> reports. \<open>levelPrefix[l]\<close> is evaluated
  before anything is written.
\<close>

definition outputf :: "env \<Rightarrow> int \<Rightarrow> string \<Rightarrow> val list \<Rightarrow> lvstate \<Rightarrow> unit outcome" where
  "outputf e l format v s =
     (if l \<ge> level s then
        (case index levelPrefix l of
           None \<Rightarrow> Panics s
         | Some p \<Rightarrow> Returns () (golog_Printf e ''log.go'' 87 (Sprint [VString p, VString format]) v s))
      else Returns () s)"

definition output' :: "env \<Rightarrow> int \<Rightarrow> val list \<Rightarrow> lvstate \<Rightarrow> unit outcome" where
  "output' e l v s =
     (if l \<ge> level s then
        (case index levelPrefix l of
           None \<Rightarrow> Panics s
         | Some p \<Rightarrow> Returns () (golog_Print e ''log.go'' 93 [VString p, VString (Sprint v)] s))
      else Returns () s)"

text \<open>\<open>os.Exit(code)\<close> after a call: reached when the call returns.\<close>

fun then_Exit :: "int \<Rightarrow> unit outcome \<Rightarrow> unit outcome" where
  "then_Exit code (Returns _ s) = Exits code s"
| "then_Exit code (Exits c s) = Exits c s"
| "then_Exit code (Panics s) = Panics s"

definition Fatalf :: "env \<Rightarrow> string \<Rightarrow> val list \<Rightarrow> lvstate \<Rightarrow> unit outcome" where
  "Fatalf e format v s = then_Exit 1 (outputf e LevelError format v s)"

definition Fatal :: "env \<Rightarrow> val list \<Rightarrow> lvstate \<Rightarrow> unit outcome" where
  "Fatal e v s = then_Exit 1 (output' e LevelError v s)"

definition Errorf :: "env \<Rightarrow> string \<Rightarrow> val list \<Rightarrow> lvstate \<Rightarrow> unit outcome" where
  "Errorf e format v s = outputf e LevelError format v s"

definition Error :: "env \<Rightarrow> val list \<Rightarrow> lvstate \<Rightarrow> unit outcome" where
  "Error e v s = output' e LevelError v s"

definition Warningf :: "env \<Rightarrow> string \<Rightarrow> val list \<Rightarrow> lvstate \<Rightarrow> unit outcome" where
  "Warningf e format v s = outputf e LevelWarning format v s"

definition Warning :: "env \<Rightarrow> val list \<Rightarrow> lvstate \<Rightarrow> unit outcome" where
  "Warning e v s = output' e LevelWarning v s"

definition Infof :: "env \<Rightarrow> string \<Rightarrow> val list \<Rightarrow> lvstate \<Rightarrow> unit outcome" where
  "Infof e format v s = outputf e LevelInfo format v s"

definition Info :: "env \<Rightarrow> val list \<Rightarrow> lvstate \<Rightarrow> unit outcome" where
  "Info e v s = output' e LevelInfo v s"

definition Debugf :: "env \<Rightarrow> string \<Rightarrow> val list \<Rightarrow> lvstate \<Rightarrow> unit outcome" where
  "Debugf e format v s = outputf e LevelDebug format v s"

definition Debug :: "env \<Rightarrow> val list \<Rightarrow> lvstate \<Rightarrow> unit outcome" where
  "Debug e v s = output' e LevelDebug v s"

subsection \<open>Calls from a client\<close>

text \<open>
  What a client of the package can do: call one of its exported functions, or have
  package \<open>flag\<close> parse the command line, which stores the values of \<open>-log-level\<close>
  and \<open>-log-file\<close> in the variables that \<open>init\<close> registered.
\<close>

datatype call =
    Call_flag_Parse string string
  | Call_InitFromArgs
  | Call_InitLevelAndFile int string
  | Call_Fatalf string "val list"
  | Call_Fatal "val list"
  | Call_Errorf string "val list"
  | Call_Error "val list"
  | Call_Warningf string "val list"
  | Call_Warning "val list"
  | Call_Infof string "val list"
  | Call_Info "val list"
  | Call_Debugf string "val list"
  | Call_Debug "val list"

fun exec :: "env \<Rightarrow> call \<Rightarrow> lvstate \<Rightarrow> unit outcome" where
  "exec e (Call_flag_Parse ls fn) s = Returns () (s\<lparr>levelString := ls, filename := fn\<rparr>)"
| "exec e Call_InitFromArgs s = InitFromArgs e s"
| "exec e (Call_InitLevelAndFile l p) s = Returns () (fst (InitLevelAndFile e l p s))"
| "exec e (Call_Fatalf f v) s = Fatalf e f v s"
| "exec e (Call_Fatal v) s = Fatal e v s"
| "exec e (Call_Errorf f v) s = Errorf e f v s"
| "exec e (Call_Error v) s = Error e v s"
| "exec e (Call_Warningf f v) s = Warningf e f v s"
| "exec e (Call_Warning v) s = Warning e v s"
| "exec e (Call_Infof f v) s = Infof e f v s"
| "exec e (Call_Info v) s = Info e v s"
| "exec e (Call_Debugf f v) s = Debugf e f v s"
| "exec e (Call_Debug v) s = Debug e v s"

text \<open>
  A sequence of calls, each in its own surroundings; nothing runs after an exit or a
  panic.
\<close>

fun run :: "(env \<times> call) list \<Rightarrow> lvstate \<Rightarrow> unit outcome" where
  "run [] s = Returns () s"
| "run ((e, c) # cs) s =
     (case exec e c s of
        Returns _ s' \<Rightarrow> run cs s'
      | Exits code s' \<Rightarrow> Exits code s'
      | Panics s' \<Rightarrow> Panics s')"

text \<open>
  The severity of the eight write functions that return (the level each passes to
  \<open>outputf\<close> or \<open>output\<close>), and that of the two fatal ones.
\<close>

fun write_level :: "call \<Rightarrow> int option" where
  "write_level (Call_Errorf _ _) = Some LevelError"
| "write_level (Call_Error _) = Some LevelError"
| "write_level (Call_Warningf _ _) = Some LevelWarning"
| "write_level (Call_Warning _) = Some LevelWarning"
| "write_level (Call_Infof _ _) = Some LevelInfo"
| "write_level (Call_Info _) = Some LevelInfo"
| "write_level (Call_Debugf _ _) = Some LevelDebug"
| "write_level (Call_Debug _) = Some LevelDebug"
| "write_level _ = None"

fun is_fatal :: "call \<Rightarrow> bool" where
  "is_fatal (Call_Fatalf _ _) = True"
| "is_fatal (Call_Fatal _) = True"
| "is_fatal _ = False"

text \<open>The message of a write call as the standard logger receives it, without prefix.\<close>

fun body :: "env \<Rightarrow> call \<Rightarrow> string" where
  "body e (Call_Fatalf f v) = Sprintf e f v"
| "body e (Call_Fatal v) = Sprint v"
| "body e (Call_Errorf f v) = Sprintf e f v"
| "body e (Call_Error v) = Sprint v"
| "body e (Call_Warningf f v) = Sprintf e f v"
| "body e (Call_Warning v) = Sprint v"
| "body e (Call_Infof f v) = Sprintf e f v"
| "body e (Call_Info v) = Sprint v"
| "body e (Call_Debugf f v) = Sprintf e f v"
| "body e (Call_Debug v) = Sprint v"
| "body e _ = []"

text \<open>The \<open>Write\<close> calls that a call added to those of the state it started in.\<close>

definition emitted :: "lvstate \<Rightarrow> 'a outcome \<Rightarrow> (os_File \<times> string) list" where
  "emitted s r = drop (length (writes s)) (writes (final r))"

text \<open>The current level is one of the four defined ones.\<close>

definition level_valid :: "lvstate \<Rightarrow> bool" where
  "level_valid s = (level s \<in> {LevelDebug, LevelInfo, LevelWarning, LevelError})"

text \<open>The line of \<open>log.go\<close> that \<open>Lshortfile\<close> reports for a write call.\<close>

fun call_line :: "call \<Rightarrow> nat" where
  "call_line (Call_Fatalf _ _) = 87"
| "call_line (Call_Errorf _ _) = 87"
| "call_line (Call_Warningf _ _) = 87"
| "call_line (Call_Infof _ _) = 87"
| "call_line (Call_Debugf _ _) = 87"
| "call_line _ = 93"

text \<open>The two initialisation functions.\<close>

fun is_init :: "call \<Rightarrow> bool" where
  "is_init Call_InitFromArgs = True"
| "is_init (Call_InitLevelAndFile _ _) = True"
| "is_init _ = False"

text \<open>The level that each case of the \<open>switch\<close> in \<open>InitFromArgs\<close> assigns.\<close>

definition named_level :: "string \<Rightarrow> int option" where
  "named_level n =
     (if n = ''DEBUG'' then Some LevelDebug
      else if n = ''INFO'' then Some LevelInfo
      else if n = ''WARNING'' then Some LevelWarning
      else if n = ''ERROR'' then Some LevelError
      else None)"

text \<open>
  Surroundings to evaluate the functions in: one file that can be opened, a fixed
  clock, and an expansion that is only right for a format without verbs and without
  arguments, the only kind it is used on.
\<close>

definition example_env :: env where
  "example_env =
     \<lparr>openable = [''/tmp/a.log''], expand = (\<lambda>f v. f),
      now_date = ''2026/10/30'', now_time = ''12:00:00''\<rparr>"

section \<open>Properties\<close>

subsection \<open>Auxiliary facts\<close>

lemmas Level_defs = LevelDebug_def LevelInfo_def LevelWarning_def LevelError_def

lemma Sprintf_literal:
  "CHR ''%'' \<notin> set p \<Longrightarrow> Sprintf e (p @ f) v = p @ Sprintf e f v"
  by (induction p) (auto simp: Sprintf_def)

lemma Sprint_two_strings: "Sprint [VString p, VString q] = p @ q"
  by (simp add: Sprint_def)

lemma index_levelPrefix:
  "LevelDebug \<le> l \<Longrightarrow> l \<le> LevelError \<Longrightarrow> index levelPrefix l = Some (levelPrefix ! nat l)"
  by (simp add: index_def levelPrefix_def LevelDebug_def LevelError_def)

lemma no_percent_levelPrefix:
  assumes "LevelDebug \<le> l" and "l \<le> LevelError"
  shows "CHR ''%'' \<notin> set (levelPrefix ! nat l)"
proof -
  from assms have "nat l \<in> {0, 1, 2, 3}"
    by (auto simp: LevelDebug_def LevelError_def)
  then show ?thesis
    by (auto simp: levelPrefix_def)
qed

lemma outputf_eq:
  assumes "LevelDebug \<le> l" and "l \<le> LevelError"
  shows "outputf e l f v s =
     (if l \<ge> level s
      then Returns () (golog_Output e ''log.go'' 87 (levelPrefix ! nat l @ Sprintf e f v) s)
      else Returns () s)"
  using assms
  by (simp add: outputf_def index_levelPrefix golog_Printf_def Sprint_two_strings
      Sprintf_literal no_percent_levelPrefix)

lemma output_eq:
  assumes "LevelDebug \<le> l" and "l \<le> LevelError"
  shows "output' e l v s =
     (if l \<ge> level s
      then Returns () (golog_Output e ''log.go'' 93 (levelPrefix ! nat l @ Sprint v) s)
      else Returns () s)"
  using assms
  by (simp add: output'_def index_levelPrefix golog_Print_def Sprint_two_strings)

text \<open>Every write call that returns, in one equation.\<close>

lemma exec_write:
  assumes "write_level c = Some S"
  shows "exec e c s =
     (if S \<ge> level s
      then Returns () (golog_Output e ''log.go'' (call_line c) (levelPrefix ! nat S @ body e c) s)
      else Returns () s)"
  using assms
  by (cases c)
     (auto simp: outputf_eq output_eq Level_defs Errorf_def Error_def Warningf_def Warning_def
        Infof_def Info_def Debugf_def Debug_def)

lemma exec_fatal:
  assumes "is_fatal c"
  shows "exec e c s =
     (if LevelError \<ge> level s
      then Exits 1 (golog_Output e ''log.go'' (call_line c) (levelPrefix ! nat LevelError @ body e c) s)
      else Exits 1 s)"
  using assms
  by (cases c) (auto simp: outputf_eq output_eq Level_defs Fatalf_def Fatal_def)

lemma emitted_golog_Output:
  "emitted s (Returns x (golog_Output e src ln msg s)) = [(std_out s, log_line (std_flags s) e src ln msg)]"
  "emitted s (Exits n (golog_Output e src ln msg s)) = [(std_out s, log_line (std_flags s) e src ln msg)]"
  by (simp_all add: emitted_def golog_Output_def)

lemma emitted_same [simp]:
  "emitted s (Returns x s) = []" "emitted s (Exits n s) = []"
  by (simp_all add: emitted_def)

lemma setFileName_empty:
  "setFileName e [] s = (s\<lparr>std_out := logFile s, std_flags := LstdFlags \<union> {Lshortfile}\<rparr>, None)"
  by (simp add: setFileName_def golog_SetOutput_def golog_SetFlags_def)

lemma setFileName_nonempty:
  "name \<noteq> [] \<Longrightarrow> setFileName e name s =
     (s\<lparr>logFile := fst (OpenFile e name), std_out := fst (OpenFile e name),
        std_flags := LstdFlags \<union> {Lshortfile}\<rparr>, snd (OpenFile e name))"
  by (simp add: setFileName_def golog_SetOutput_def golog_SetFlags_def split: prod.split)

lemma OpenFile_fails:
  "snd (OpenFile e name) \<noteq> None \<Longrightarrow> OpenFile e name = (NilFile, Some (PathError name))"
  by (simp add: OpenFile_def split: if_splits)

lemma level_setFileName [simp]: "level (fst (setFileName e name s)) = level s"
  by (cases "name = []") (simp_all add: setFileName_empty setFileName_nonempty)

lemma level_golog_Output [simp]: "level (golog_Output e src ln msg s) = level s"
  by (simp add: golog_Output_def)

lemma level_valid_exec:
  assumes "level_valid s"
  shows "level_valid (final (exec e c s))"
proof (cases "write_level c")
  case (Some S)
  with assms show ?thesis
    by (simp add: exec_write [OF Some] level_valid_def)
next
  case None
  show ?thesis
  proof (cases "is_fatal c")
    case True
    with assms show ?thesis
      by (auto simp: exec_fatal [OF True] level_valid_def)
  next
    case False
    with None assms show ?thesis
      by (cases c)
         (auto simp: InitFromArgs_def InitLevelAndFile_def level_valid_def Level_defs
            Fprintln_Stderr_def)
  qed
qed

lemma level_valid_run:
  "level_valid s \<Longrightarrow> level_valid (final (run cs s))"
proof (induction cs arbitrary: s)
  case Nil
  then show ?case by simp
next
  case (Cons a cs)
  obtain e c where a: "a = (e, c)" by (cases a)
  from Cons.prems have v: "level_valid (final (exec e c s))"
    by (rule level_valid_exec)
  show ?case
  proof (cases "exec e c s")
    case (Returns x s')
    with v Cons.IH [of s'] a show ?thesis by simp
  next
    case (Exits n s')
    with v a show ?thesis by simp
  next
    case (Panics s')
    with v a show ?thesis by simp
  qed
qed

text \<open>Calls other than the two initialisations leave level and logger output alone.\<close>

lemma uninitialised_exec:
  assumes "\<not> is_init c"
  shows "level (final (exec e c s)) = level s \<and> std_out (final (exec e c s)) = std_out s"
proof (cases "write_level c")
  case (Some S)
  show ?thesis
    by (simp add: exec_write [OF Some] golog_Output_def)
next
  case None
  show ?thesis
  proof (cases "is_fatal c")
    case True
    show ?thesis
      by (simp add: exec_fatal [OF True] golog_Output_def)
  next
    case False
    with None assms show ?thesis
      by (cases c) simp_all
  qed
qed

lemma uninitialised_run:
  "\<forall>(e, c) \<in> set cs. \<not> is_init c \<Longrightarrow> run cs s = Returns () s' \<Longrightarrow>
     level s' = level s \<and> std_out s' = std_out s"
proof (induction cs arbitrary: s)
  case Nil
  then show ?case by simp
next
  case (Cons a cs)
  obtain e c where a: "a = (e, c)" by (cases a)
  with Cons.prems(1) have n: "\<not> is_init c" by simp
  show ?case
  proof (cases "exec e c s")
    case (Returns x s1)
    with Cons.prems a have "run cs s1 = Returns () s'" by simp
    with Cons.IH [of s1] Cons.prems(1) have "level s' = level s1 \<and> std_out s' = std_out s1"
      by simp
    with uninitialised_exec [OF n, of e s] Returns show ?thesis by simp
  next
    case (Exits n s1)
    with Cons.prems a show ?thesis by simp
  next
    case (Panics s1)
    with Cons.prems a show ?thesis by simp
  qed
qed

lemma init_flags:
  "LstdFlags \<union> {Lshortfile} = {Ldate, Ltime, Lshortfile}"
  "insert Lshortfile LstdFlags = {Ldate, Ltime, Lshortfile}"
  by (auto simp: LstdFlags_def)

text \<open>\<open>InitFromArgs\<close> with a level name: the level it names, then \<open>setFileName\<close>.\<close>

lemma InitFromArgs_named:
  "named_level (levelString s) = Some l \<Longrightarrow>
     InitFromArgs e s = Returns () (fst (setFileName e (filename s) (s\<lparr>level := l\<rparr>)))"
  by (auto simp: named_level_def InitFromArgs_def split: if_splits)

lemma named_level_None:
  "named_level n = None \<longleftrightarrow> n \<notin> {''DEBUG'', ''INFO'', ''WARNING'', ''ERROR''}"
  by (simp add: named_level_def)

subsection \<open>Gating by level\<close>

text \<open>
  Claim C1. A call of one of the eight write functions \<open>Debug\<close>, \<open>Debugf\<close>, \<open>Info\<close>,
  \<open>Infof\<close>, \<open>Warning\<close>, \<open>Warningf\<close>, \<open>Error\<close>, \<open>Errorf\<close>, of severity \<open>S\<close>, in a state
  whose level is one of the four defined ones, always returns; it passes a line to the
  logger's output exactly when \<open>S\<close> is at least the current level, and then exactly
  one; when \<open>S\<close> is below the level it returns the state it was called in, so writes
  nothing.
\<close>

theorem write_emits_iff_level_reached:
  assumes "level_valid s" and "write_level c = Some S"
  shows "(emitted s (exec e c s) \<noteq> [] \<longleftrightarrow> S \<ge> level s)
       \<and> (S \<ge> level s \<longrightarrow>
            (\<exists>line. exec e c s = Returns () (s\<lparr>writes := writes s @ [(std_out s, line)]\<rparr>)))
       \<and> (S < level s \<longrightarrow> exec e c s = Returns () s)"
proof (cases "S \<ge> level s")
  case True
  then have "exec e c s =
      Returns () (golog_Output e ''log.go'' (call_line c) (levelPrefix ! nat S @ body e c) s)"
    by (simp add: exec_write [OF assms(2)])
  moreover from this have "\<exists>line. exec e c s = Returns () (s\<lparr>writes := writes s @ [(std_out s, line)]\<rparr>)"
    unfolding golog_Output_def by blast
  ultimately show ?thesis
    using True by (simp add: emitted_golog_Output)
next
  case False
  then show ?thesis
    by (simp add: exec_write [OF assms(2)])
qed

theorem write_emits_iff_level_reached_witness:
  "level_valid initial_state
   \<and> write_level (Call_Debug [VString ''d'']) = Some LevelDebug
   \<and> LevelDebug < level initial_state
   \<and> exec example_env (Call_Debug [VString ''d'']) initial_state = Returns () initial_state
   \<and> write_level (Call_Warningf ''w'' []) = Some LevelWarning
   \<and> LevelWarning \<ge> level initial_state
   \<and> emitted initial_state (exec example_env (Call_Warningf ''w'' []) initial_state) \<noteq> []"
  using write_emits_iff_level_reached
          [of initial_state "Call_Debug [VString ''d'']" LevelDebug example_env]
        write_emits_iff_level_reached
          [of initial_state "Call_Warningf ''w'' []" LevelWarning example_env]
  by (simp add: level_valid_def initial_state_def Level_defs)

subsection \<open>The level stays one of the four\<close>

text \<open>
  Claim C2. The current level is always one of \<open>LevelDebug\<close>, \<open>LevelInfo\<close>,
  \<open>LevelWarning\<close>, \<open>LevelError\<close>: it is at process start, every call keeps it so,
  hence it is so after any sequence of calls; and \<open>InitLevelAndFile\<close> with a number
  outside the range returns the error and the state it was called in, instead of
  storing a nearby level.
\<close>

theorem level_always_valid:
  "level_valid initial_state
   \<and> (level_valid s \<longrightarrow> level_valid (final (exec e c s)))
   \<and> level_valid (final (run cs initial_state))
   \<and> (\<not> (LevelDebug \<le> l \<and> l \<le> LevelError) \<longrightarrow>
        InitLevelAndFile e l p s = (s, Some (ErrorString ''wrong level number'')))"
proof -
  have init: "level_valid initial_state"
    by (simp add: level_valid_def initial_state_def)
  have reject: "\<not> (LevelDebug \<le> l \<and> l \<le> LevelError) \<longrightarrow>
        InitLevelAndFile e l p s = (s, Some (ErrorString ''wrong level number''))"
    by (auto simp: InitLevelAndFile_def)
  from init have "level_valid (final (run cs initial_state))"
    by (rule level_valid_run)
  with init reject show ?thesis
    by (simp add: level_valid_exec)
qed

theorem level_always_valid_witness:
  "level_valid initial_state
   \<and> level_valid (final (exec example_env (Call_InitLevelAndFile 7 ''/tmp/a.log'') initial_state))
   \<and> level (final (exec example_env (Call_InitLevelAndFile 7 ''/tmp/a.log'') initial_state)) = LevelInfo
   \<and> \<not> (LevelDebug \<le> 7 \<and> 7 \<le> LevelError)
   \<and> InitLevelAndFile example_env 7 ''/tmp/a.log'' initial_state
       = (initial_state, Some (ErrorString ''wrong level number''))"
  using level_always_valid
          [of initial_state example_env "Call_InitLevelAndFile 7 ''/tmp/a.log''" "[]" 7 "''/tmp/a.log''"]
  by (simp add: Level_defs initial_state_def)

subsection \<open>A wrong level number\<close>

text \<open>
  Claim C3. For a level number \<open>l\<close> outside \<open>0..3\<close> and any path \<open>p\<close>,
  \<open>InitLevelAndFile l p\<close> returns the error "wrong level number" and the state it
  was called in: level, log file, logger output and flags are as before, so every
  later call behaves as it would have without it. \<open>InitLevelAndFile(5, "")\<close> is
  one such call.
\<close>

theorem InitLevelAndFile_wrong_level:
  assumes "l < LevelDebug \<or> l > LevelError"
  shows "InitLevelAndFile e l p s = (s, Some (ErrorString ''wrong level number''))
       \<and> exec e' c (fst (InitLevelAndFile e l p s)) = exec e' c s
       \<and> InitLevelAndFile e 5 '''' s = (s, Some (ErrorString ''wrong level number''))"
  using assms by (auto simp: InitLevelAndFile_def Level_defs)

theorem InitLevelAndFile_wrong_level_witness:
  "((5::int) < LevelDebug \<or> 5 > LevelError)
   \<and> InitLevelAndFile example_env 5 '''' initial_state
       = (initial_state, Some (ErrorString ''wrong level number''))
   \<and> exec example_env (Call_Info [VString ''m'']) (fst (InitLevelAndFile example_env 5 '''' initial_state))
       = exec example_env (Call_Info [VString ''m'']) initial_state"
  using InitLevelAndFile_wrong_level
          [of 5 example_env "''''" initial_state example_env "Call_Info [VString ''m'']"]
  by (simp add: Level_defs)

subsection \<open>A log file that cannot be opened\<close>

text \<open>
  Claim C4. For a level \<open>l\<close> in \<open>0..3\<close> and a non-empty path \<open>p\<close> whose open fails,
  \<open>InitLevelAndFile l p\<close> returns an error (that of the open), the level is \<open>l\<close>
  afterwards, and \<open>logFile\<close> and the logger's output are the file that the failed
  open returned, which is nil.
\<close>

theorem InitLevelAndFile_open_fails:
  assumes "LevelDebug \<le> l" and "l \<le> LevelError"
    and "p \<noteq> []" and "snd (OpenFile e p) \<noteq> None"
  shows "snd (InitLevelAndFile e l p s) \<noteq> None
       \<and> snd (InitLevelAndFile e l p s) = snd (OpenFile e p)
       \<and> level (fst (InitLevelAndFile e l p s)) = l
       \<and> logFile (fst (InitLevelAndFile e l p s)) = fst (OpenFile e p)
       \<and> std_out (fst (InitLevelAndFile e l p s)) = fst (OpenFile e p)
       \<and> InitLevelAndFile e l p s
           = (s\<lparr>level := l, logFile := NilFile, std_out := NilFile,
                 std_flags := LstdFlags \<union> {Lshortfile}\<rparr>, Some (PathError p))"
proof -
  from assms(4) have o: "OpenFile e p = (NilFile, Some (PathError p))"
    by (rule OpenFile_fails)
  from assms(1,2,3) have "InitLevelAndFile e l p s
      = (s\<lparr>level := l, logFile := NilFile, std_out := NilFile,
            std_flags := LstdFlags \<union> {Lshortfile}\<rparr>, Some (PathError p))"
    by (simp add: InitLevelAndFile_def setFileName_nonempty o)
  then show ?thesis
    by (simp add: o)
qed

theorem InitLevelAndFile_open_fails_witness:
  "LevelDebug \<le> LevelError \<and> LevelError \<le> LevelError \<and> ''/no/such.log'' \<noteq> []
   \<and> snd (OpenFile example_env ''/no/such.log'') \<noteq> None
   \<and> InitLevelAndFile example_env LevelError ''/no/such.log'' initial_state
       = (initial_state\<lparr>level := LevelError, logFile := NilFile, std_out := NilFile,
            std_flags := LstdFlags \<union> {Lshortfile}\<rparr>, Some (PathError ''/no/such.log''))"
  using InitLevelAndFile_open_fails
          [of LevelError "''/no/such.log''" example_env initial_state]
  by (simp add: Level_defs OpenFile_def example_env_def)

subsection \<open>Fatal writes\<close>

text \<open>
  Claim C5. Whatever the state, a call of \<open>Fatal\<close> or \<open>Fatalf\<close> ends in an exit with
  status 1 and in nothing else; when the level is one of the four defined ones, the
  call has passed its line, with the prefix of \<open>LevelError\<close>, to the logger's output
  before.
\<close>

theorem fatal_emits_then_exits:
  assumes "is_fatal c"
  shows "(\<exists>s'. exec e c s = Exits 1 s')
       \<and> (level_valid s \<longrightarrow>
            exec e c s =
              Exits 1 (s\<lparr>writes := writes s @
                 [(std_out s,
                   log_line (std_flags s) e ''log.go'' (call_line c) (''[ERROR] '' @ body e c))]\<rparr>))"
proof -
  have "levelPrefix ! nat LevelError = ''[ERROR] ''"
    by (simp add: levelPrefix_def LevelError_def)
  then show ?thesis
    by (auto simp: exec_fatal [OF assms] golog_Output_def level_valid_def Level_defs)
qed

theorem fatal_emits_then_exits_witness:
  "is_fatal (Call_Fatal [VString ''disk'', VInt 5]) \<and> level_valid initial_state
   \<and> exec example_env (Call_Fatal [VString ''disk'', VInt 5]) initial_state
       = Exits 1 (initial_state\<lparr>writes :=
           [(Stderr, ''2026/10/30 12:00:00 [ERROR] disk5'' @ [CHR 0x0A])]\<rparr>)"
  using fatal_emits_then_exits [of "Call_Fatal [VString ''disk'', VInt 5]" example_env initial_state]
  by (simp add: level_valid_def initial_state_def Level_defs log_line_def formatHeader_def
      LstdFlags_def example_env_def Sprint_def digits.simps digit_def)

subsection \<open>Before any initialisation\<close>

text \<open>
  Claim C6. As long as neither \<open>InitFromArgs\<close> nor \<open>InitLevelAndFile\<close> has been
  called, the level is \<open>LevelInfo\<close> and the logger writes to standard error:
  \<open>Debug\<close> and \<open>Debugf\<close> return without writing, and \<open>Info\<close>, \<open>Infof\<close>,
  \<open>Warning\<close>, \<open>Warningf\<close>, \<open>Error\<close> and \<open>Errorf\<close> pass one line to standard error.
\<close>

theorem default_level_is_Info:
  assumes "\<forall>(e', c') \<in> set cs. \<not> is_init c'"
    and "run cs initial_state = Returns () s"
    and "write_level c = Some S"
  shows "level s = LevelInfo \<and> std_out s = Stderr
       \<and> (S = LevelDebug \<longrightarrow> exec e c s = Returns () s)
       \<and> (S \<noteq> LevelDebug \<longrightarrow>
            (\<exists>line. exec e c s = Returns () (s\<lparr>writes := writes s @ [(Stderr, line)]\<rparr>)))"
proof -
  from assms(1,2) have d: "level s = LevelInfo \<and> std_out s = Stderr"
    using uninitialised_run [of cs initial_state s]
    by (simp add: initial_state_def)
  from assms(3) have "S \<in> {LevelDebug, LevelInfo, LevelWarning, LevelError}"
    by (cases c) auto
  with d show ?thesis
    unfolding exec_write [OF assms(3)] golog_Output_def
    by (auto simp: Level_defs)
qed

theorem default_level_is_Info_witness:
  "\<not> is_init (Call_flag_Parse ''INFO'' '''') \<and> \<not> is_init (Call_Debug [VInt 1])
   \<and> run [(example_env, Call_flag_Parse ''INFO'' ''''), (example_env, Call_Debug [VInt 1])] initial_state
       = Returns () initial_state
   \<and> write_level (Call_Info [VString ''up'']) = Some LevelInfo
   \<and> level initial_state = LevelInfo
   \<and> LevelInfo \<noteq> LevelDebug
   \<and> (\<exists>line. exec example_env (Call_Info [VString ''up'']) initial_state
         = Returns () (initial_state\<lparr>writes := writes initial_state @ [(Stderr, line)]\<rparr>))"
  using default_level_is_Info
          [of "[(example_env, Call_flag_Parse ''INFO'' ''''), (example_env, Call_Debug [VInt 1])]"
              initial_state "Call_Info [VString ''up'']" LevelInfo example_env]
  by (simp add: initial_state_def Level_defs Debug_def output'_def)

subsection \<open>An unknown level name\<close>

text \<open>
  Claim C7. When \<open>levelString\<close> is none of \<open>DEBUG\<close>, \<open>INFO\<close>, \<open>WARNING\<close>, \<open>ERROR\<close>,
  \<open>InitFromArgs\<close> writes one line of diagnostic to standard error and exits with
  status 1; it does not return, and level, log file, and the logger's output and flags
  are what they were.
\<close>

theorem InitFromArgs_unknown_level:
  assumes "levelString s \<notin> {''DEBUG'', ''INFO'', ''WARNING'', ''ERROR''}"
  shows "InitFromArgs e s =
           Exits 1 (s\<lparr>writes := writes s @
              [(Stderr, ''log-level can only be DEBUG, INFO, WARNING, ERROR'' @ [CHR 0x0A])]\<rparr>)
       \<and> level (final (InitFromArgs e s)) = level s
       \<and> logFile (final (InitFromArgs e s)) = logFile s
       \<and> std_out (final (InitFromArgs e s)) = std_out s
       \<and> std_flags (final (InitFromArgs e s)) = std_flags s"
  using assms by (simp add: InitFromArgs_def Fprintln_Stderr_def)

theorem InitFromArgs_unknown_level_witness:
  "levelString (initial_state\<lparr>levelString := ''BOGUS''\<rparr>) \<notin> {''DEBUG'', ''INFO'', ''WARNING'', ''ERROR''}
   \<and> InitFromArgs example_env (initial_state\<lparr>levelString := ''BOGUS''\<rparr>) =
       Exits 1 (initial_state\<lparr>levelString := ''BOGUS'', writes :=
          [(Stderr, ''log-level can only be DEBUG, INFO, WARNING, ERROR'' @ [CHR 0x0A])]\<rparr>)"
  using InitFromArgs_unknown_level [of "initial_state\<lparr>levelString := ''BOGUS''\<rparr>" example_env]
  by (simp add: initial_state_def)

subsection \<open>The prefix of a line\<close>

text \<open>
  Claim C8. A line that a write function passes to the logger is the logger's header
  (date, time and file position, as the flags say), then the entry of \<open>levelPrefix\<close>
  for the function's severity, then the message; for \<open>Warning\<close> and \<open>Warningf\<close> the
  entry is \<open>[WARNING] \<close>, and the table holds \<open>[DEBUG] \<close>, \<open>[INFO] \<close>,
  \<open>[WARNING] \<close> and \<open>[ERROR] \<close>.
\<close>

theorem line_starts_with_level_prefix:
  assumes "write_level c = Some S" and "S \<ge> level s"
  shows "emitted s (exec e c s) =
           [(std_out s,
             formatHeader (std_flags s) e ''log.go'' (call_line c) @ levelPrefix ! nat S @ body e c
               @ (if body e c = [] \<or> last (body e c) \<noteq> CHR 0x0A then [CHR 0x0A] else []))]
       \<and> (S = LevelWarning \<longrightarrow> levelPrefix ! nat S = ''[WARNING] '')
       \<and> levelPrefix ! nat S \<in> {''[DEBUG] '', ''[INFO] '', ''[WARNING] '', ''[ERROR] ''}
       \<and> levelPrefix = [''[DEBUG] '', ''[INFO] '', ''[WARNING] '', ''[ERROR] '']"
proof -
  from assms(1) have S: "S \<in> {LevelDebug, LevelInfo, LevelWarning, LevelError}"
    by (cases c) auto
  then have p: "levelPrefix ! nat S \<noteq> []"
      "body e c = [] \<Longrightarrow> last (levelPrefix ! nat S) = CHR '' ''"
    by (auto simp: levelPrefix_def Level_defs)
  have "log_line (std_flags s) e ''log.go'' (call_line c) (levelPrefix ! nat S @ body e c) =
      formatHeader (std_flags s) e ''log.go'' (call_line c) @ levelPrefix ! nat S @ body e c
        @ (if body e c = [] \<or> last (body e c) \<noteq> CHR 0x0A then [CHR 0x0A] else [])"
    using p by (cases "body e c = []") (simp_all add: log_line_def)
  with assms(2) have "emitted s (exec e c s) =
           [(std_out s,
             formatHeader (std_flags s) e ''log.go'' (call_line c) @ levelPrefix ! nat S @ body e c
               @ (if body e c = [] \<or> last (body e c) \<noteq> CHR 0x0A then [CHR 0x0A] else []))]"
    by (simp add: exec_write [OF assms(1)] emitted_golog_Output)
  moreover from S have "levelPrefix ! nat S \<in> {''[DEBUG] '', ''[INFO] '', ''[WARNING] '', ''[ERROR] ''}"
    by (auto simp: levelPrefix_def Level_defs)
  moreover have "S = LevelWarning \<longrightarrow> levelPrefix ! nat S = ''[WARNING] ''"
    by (simp add: levelPrefix_def Level_defs)
  ultimately show ?thesis
    by (simp add: levelPrefix_def)
qed

theorem line_starts_with_level_prefix_witness:
  "write_level (Call_Warningf ''disk full'' []) = Some LevelWarning
   \<and> LevelWarning \<ge> level initial_state
   \<and> emitted initial_state (exec example_env (Call_Warningf ''disk full'' []) initial_state)
       = [(Stderr, ''2026/10/30 12:00:00 '' @ ''[WARNING] '' @ ''disk full'' @ [CHR 0x0A])]
   \<and> write_level (Call_Warning [VString ''load'', VInt 7, VInt 9]) = Some LevelWarning
   \<and> emitted initial_state
         (exec example_env (Call_Warning [VString ''load'', VInt 7, VInt 9]) initial_state)
       = [(Stderr, ''2026/10/30 12:00:00 '' @ ''[WARNING] '' @ ''load7 9'' @ [CHR 0x0A])]"
proof -
  have f: "emitted initial_state (exec example_env (Call_Warningf ''disk full'' []) initial_state)
       = [(Stderr, ''2026/10/30 12:00:00 '' @ ''[WARNING] '' @ ''disk full'' @ [CHR 0x0A])]"
    using line_starts_with_level_prefix
            [of "Call_Warningf ''disk full'' []" LevelWarning initial_state example_env]
    by (simp add: initial_state_def Level_defs formatHeader_def LstdFlags_def Sprintf_def
        example_env_def levelPrefix_def)
  have p: "emitted initial_state
         (exec example_env (Call_Warning [VString ''load'', VInt 7, VInt 9]) initial_state)
       = [(Stderr, ''2026/10/30 12:00:00 '' @ ''[WARNING] '' @ ''load7 9'' @ [CHR 0x0A])]"
    using line_starts_with_level_prefix
            [of "Call_Warning [VString ''load'', VInt 7, VInt 9]" LevelWarning initial_state
                example_env]
    by (simp add: initial_state_def Level_defs formatHeader_def LstdFlags_def
        example_env_def levelPrefix_def Sprint_def digits.simps digit_def)
  have "LevelWarning \<ge> level initial_state"
    by (simp add: initial_state_def Level_defs)
  with f p show ?thesis
    by simp
qed

subsection \<open>An empty file name\<close>

text \<open>
  Claim C9. With a level in \<open>0..3\<close> and the empty path, \<open>InitLevelAndFile\<close> returns
  no error and leaves \<open>logFile\<close> as it was, makes it the output of the logger, and
  sets the logger's flags to date, time and short file; so a destination that was
  standard error stays standard error. The same holds for \<open>InitFromArgs\<close> with the
  name of the level in \<open>levelString\<close> and an empty \<open>filename\<close>.
\<close>

theorem empty_path_keeps_destination:
  assumes "LevelDebug \<le> l" and "l \<le> LevelError"
  shows "InitLevelAndFile e l [] s =
           (s\<lparr>level := l, std_out := logFile s, std_flags := {Ldate, Ltime, Lshortfile}\<rparr>, None)
       \<and> logFile (fst (InitLevelAndFile e l [] s)) = logFile s
       \<and> (logFile s = Stderr \<longrightarrow>
            logFile (fst (InitLevelAndFile e l [] s)) = Stderr
            \<and> std_out (fst (InitLevelAndFile e l [] s)) = Stderr)
       \<and> (named_level (levelString s) = Some l \<and> filename s = [] \<longrightarrow>
            InitFromArgs e s =
              Returns () (s\<lparr>level := l, std_out := logFile s,
                            std_flags := {Ldate, Ltime, Lshortfile}\<rparr>))"
proof -
  have "InitLevelAndFile e l [] s =
           (s\<lparr>level := l, std_out := logFile s, std_flags := {Ldate, Ltime, Lshortfile}\<rparr>, None)"
    using assms by (simp add: InitLevelAndFile_def setFileName_empty init_flags)
  moreover have "named_level (levelString s) = Some l \<and> filename s = [] \<longrightarrow>
            InitFromArgs e s =
              Returns () (s\<lparr>level := l, std_out := logFile s,
                            std_flags := {Ldate, Ltime, Lshortfile}\<rparr>)"
    by (auto simp: InitFromArgs_named setFileName_empty init_flags)
  ultimately show ?thesis
    by simp
qed

theorem empty_path_keeps_destination_witness:
  "LevelDebug \<le> LevelWarning \<and> LevelWarning \<le> LevelError
   \<and> InitLevelAndFile example_env LevelWarning [] initial_state =
       (initial_state\<lparr>level := LevelWarning, std_flags := {Ldate, Ltime, Lshortfile}\<rparr>, None)
   \<and> logFile initial_state = Stderr
   \<and> std_out (fst (InitLevelAndFile example_env LevelWarning [] initial_state)) = Stderr
   \<and> named_level (levelString (initial_state\<lparr>levelString := ''WARNING''\<rparr>)) = Some LevelWarning
   \<and> InitFromArgs example_env (initial_state\<lparr>levelString := ''WARNING''\<rparr>) =
       Returns () (initial_state\<lparr>levelString := ''WARNING'', level := LevelWarning,
                     std_flags := {Ldate, Ltime, Lshortfile}\<rparr>)"
  using empty_path_keeps_destination [of LevelWarning example_env initial_state]
        empty_path_keeps_destination
          [of LevelWarning example_env "initial_state\<lparr>levelString := ''WARNING''\<rparr>"]
  by (simp add: Level_defs initial_state_def named_level_def)

subsection \<open>\<open>InitFromArgs\<close> and a log file that cannot be opened\<close>

text \<open>
  Claim C10. When \<open>levelString\<close> names a level (one of the four names) and \<open>filename\<close> is not
  empty but cannot be opened, \<open>InitFromArgs\<close> returns: the process does not exit,
  nothing is written, the error of the open is lost, and \<open>logFile\<close> and the logger's
  output are the nil file that the failed open returned.
\<close>

theorem InitFromArgs_drops_open_error:
  assumes "named_level (levelString s) = Some l"
    and "filename s \<noteq> []" and "snd (OpenFile e (filename s)) \<noteq> None"
  shows "InitFromArgs e s =
           Returns () (s\<lparr>level := l, logFile := NilFile, std_out := NilFile,
                         std_flags := {Ldate, Ltime, Lshortfile}\<rparr>)
       \<and> fst (OpenFile e (filename s)) = NilFile
       \<and> emitted s (InitFromArgs e s) = []"
proof -
  from assms(3) have o: "OpenFile e (filename s) = (NilFile, Some (PathError (filename s)))"
    by (rule OpenFile_fails)
  from assms(1,2) show ?thesis
    by (simp add: InitFromArgs_named setFileName_nonempty o init_flags emitted_def)
qed

theorem InitFromArgs_drops_open_error_witness:
  "named_level (levelString (initial_state\<lparr>filename := ''/no/such.log''\<rparr>)) = Some LevelInfo
   \<and> filename (initial_state\<lparr>filename := ''/no/such.log''\<rparr>) \<noteq> []
   \<and> snd (OpenFile example_env (filename (initial_state\<lparr>filename := ''/no/such.log''\<rparr>))) \<noteq> None
   \<and> InitFromArgs example_env (initial_state\<lparr>filename := ''/no/such.log''\<rparr>) =
       Returns () (initial_state\<lparr>filename := ''/no/such.log'', logFile := NilFile,
                     std_out := NilFile, std_flags := {Ldate, Ltime, Lshortfile}\<rparr>)"
  using InitFromArgs_drops_open_error
          [of "initial_state\<lparr>filename := ''/no/such.log''\<rparr>" LevelInfo example_env]
  by (simp add: initial_state_def OpenFile_def example_env_def Level_defs named_level_def)

end
